theory Spec2Isabelle
  imports Complex_Main "HOL-Library.Product_Lexorder"
begin

section \<open>Numbers and dates\<close>

text \<open>
  The source computes with JavaScript numbers. Amounts are modelled as exact rationals
  (every finite double is one); rounding, NaN and infinities are outside the model.
  A \<open>Date\<close> is its time value: the integer number of milliseconds since
  1970-01-01T00:00:00Z; invalid dates and the range limit of time values are outside the
  model. The date library reads dates in the host's time zone; the model
  fixes that zone to UTC, so a calendar day is a block of \<open>msPerDay\<close> milliseconds.
  The calendar functions follow the day, year and month arithmetic of the ECMAScript
  specification (Day, DayFromYear, YearFromTime, MonthFromTime, DateFromTime, WeekDay,
  MakeDay), months counted from 0 as \<open>getMonth\<close> does.
\<close>

type_synonym Date = int

definition msPerDay :: int where
  "msPerDay = 24 * 60 * 60 * 1000"

definition Day :: "Date \<Rightarrow> int" where
  "Day t = t div msPerDay"

definition TimeWithinDay :: "Date \<Rightarrow> int" where
  "TimeWithinDay t = t mod msPerDay"

definition InLeapYear :: "int \<Rightarrow> bool" where
  "InLeapYear y = (y mod 4 = 0 \<and> (y mod 100 \<noteq> 0 \<or> y mod 400 = 0))"

definition DaysInYear :: "int \<Rightarrow> int" where
  "DaysInYear y = (if InLeapYear y then 366 else 365)"

definition DayFromYear :: "int \<Rightarrow> int" where
  "DayFromYear y =
     365 * (y - 1970) + (y - 1969) div 4 - (y - 1901) div 100 + (y - 1601) div 400"

text \<open>
  \<open>YearFromDay d\<close> is the year whose first day is the latest one not after day \<open>d\<close>.
  It is computed from the mean year length of 146097/400 days, which is off by at most
  one year, and then adjusted.
\<close>

definition YearFromDay :: "int \<Rightarrow> int" where
  "YearFromDay d =
     (let y0 = 1970 + (400 * d) div 146097
      in if DayFromYear (y0 + 1) \<le> d then y0 + 1
         else if DayFromYear y0 \<le> d then y0
         else y0 - 1)"

definition DayWithinYear :: "int \<Rightarrow> int" where
  "DayWithinYear d = d - DayFromYear (YearFromDay d)"

text \<open>The number of days of a year before its month \<open>m\<close> (0 is January).\<close>

definition MonthStart :: "bool \<Rightarrow> int \<Rightarrow> int" where
  "MonthStart leap m =
     (let l = (if leap then 1 else 0)
      in if m = 0 then 0 else if m = 1 then 31 else if m = 2 then 59 + l
         else if m = 3 then 90 + l else if m = 4 then 120 + l else if m = 5 then 151 + l
         else if m = 6 then 181 + l else if m = 7 then 212 + l else if m = 8 then 243 + l
         else if m = 9 then 273 + l else if m = 10 then 304 + l else 334 + l)"

definition MonthFromDay :: "int \<Rightarrow> int" where
  "MonthFromDay d =
     (let w = DayWithinYear d; l = (if InLeapYear (YearFromDay d) then 1 else 0)
      in if w < 31 then 0 else if w < 59 + l then 1 else if w < 90 + l then 2
         else if w < 120 + l then 3 else if w < 151 + l then 4 else if w < 181 + l then 5
         else if w < 212 + l then 6 else if w < 243 + l then 7 else if w < 273 + l then 8
         else if w < 304 + l then 9 else if w < 334 + l then 10 else 11)"

definition DateFromDay :: "int \<Rightarrow> int" where
  "DateFromDay d =
     DayWithinYear d - MonthStart (InLeapYear (YearFromDay d)) (MonthFromDay d) + 1"

definition MakeDay :: "int \<Rightarrow> int \<Rightarrow> int \<Rightarrow> int" where
  "MakeDay year month dt =
     (let ym = year + month div 12; mn = month mod 12
      in DayFromYear ym + MonthStart (InLeapYear ym) mn + dt - 1)"

definition getFullYear :: "Date \<Rightarrow> int" where
  "getFullYear t = YearFromDay (Day t)"

definition getMonth :: "Date \<Rightarrow> int" where
  "getMonth t = MonthFromDay (Day t)"

definition getDate :: "Date \<Rightarrow> int" where
  "getDate t = DateFromDay (Day t)"

definition getDay :: "Date \<Rightarrow> int" where
  "getDay t = (Day t + 4) mod 7"

text \<open>\<open>setFullYear(y, m, d)\<close> and \<open>setDate(d)\<close> move the day and keep the time of day.\<close>

definition setFullYear :: "Date \<Rightarrow> int \<Rightarrow> int \<Rightarrow> int \<Rightarrow> Date" where
  "setFullYear t y m d = MakeDay y m d * msPerDay + TimeWithinDay t"

definition setDate :: "Date \<Rightarrow> int \<Rightarrow> Date" where
  "setDate t d = setFullYear t (getFullYear t) (getMonth t) d"

subsection \<open>The date library\<close>

definition startOfMonth :: "Date \<Rightarrow> Date" where
  "startOfMonth t = MakeDay (getFullYear t) (getMonth t) 1 * msPerDay"

definition endOfMonth :: "Date \<Rightarrow> Date" where
  "endOfMonth t = MakeDay (getFullYear t) (getMonth t + 1) 0 * msPerDay + (msPerDay - 1)"

text \<open>
  \<open>addMonths\<close> goes to the last day of the wanted month and returns it when the
  day of the month does not exist there; otherwise it returns the same day of that month.
\<close>

definition addMonths :: "Date \<Rightarrow> int \<Rightarrow> Date" where
  "addMonths t amount =
     (if amount = 0 then t
      else let dayOfMonth = getDate t;
               endOfDesiredMonth = setFullYear t (getFullYear t) (getMonth t + amount + 1) 0;
               daysInMonth = getDate endOfDesiredMonth
           in if dayOfMonth \<ge> daysInMonth then endOfDesiredMonth
              else setFullYear t (getFullYear endOfDesiredMonth)
                     (getMonth endOfDesiredMonth) dayOfMonth)"

definition subMonths :: "Date \<Rightarrow> int \<Rightarrow> Date" where
  "subMonths t amount = addMonths t (- amount)"

record Interval =
  start :: Date
  end' :: Date

text \<open>Membership is inclusive at both ends; the ends are put in order first.\<close>

definition isWithinInterval :: "Date \<Rightarrow> Interval \<Rightarrow> bool" where
  "isWithinInterval t iv =
     (let startTime = min (start iv) (end' iv); endTime = max (start iv) (end' iv)
      in t \<ge> startTime \<and> t \<le> endTime)"

text \<open>One date per calendar day of the interval, each at the start of its day.\<close>

definition eachDayOfInterval :: "Interval \<Rightarrow> Date list" where
  "eachDayOfInterval iv =
     (let reversed = start iv > end' iv;
          s = (if reversed then end' iv else start iv);
          e = (if reversed then start iv else end' iv);
          dates = map (\<lambda>k. k * msPerDay) [Day s .. Day e]
      in if reversed then rev dates else dates)"

definition differenceInCalendarDays :: "Date \<Rightarrow> Date \<Rightarrow> int" where
  "differenceInCalendarDays l r = Day l - Day r"

text \<open>The number of full days between two dates, rounded towards zero.\<close>

definition differenceInDays :: "Date \<Rightarrow> Date \<Rightarrow> int" where
  "differenceInDays l r =
     (let sign = sgn (l - r);
          difference = \<bar>differenceInCalendarDays l r\<bar>;
          l' = l - sign * difference * msPerDay;
          isLastDayNotFull = (if sgn (l' - r) = - sign then 1 else 0)
      in sign * (difference - isLastDayNotFull))"

text \<open>
  \<open>format(d, 'yyyy-MM-dd')\<close> is modelled by the triple (year, month from 1, day); the
  order of triples is the order of the strings for years 0 to 9999.
  \<open>new Date('yyyy-MM-dd')\<close> reads such a string as midnight UTC.
\<close>

type_synonym ymd = "int \<times> int \<times> int"

definition format_ymd :: "Date \<Rightarrow> ymd" where
  "format_ymd t = (getFullYear t, getMonth t + 1, getDate t)"

definition parse_ymd :: "ymd \<Rightarrow> Date" where
  "parse_ymd s = (case s of (y, m, d) \<Rightarrow> MakeDay y (m - 1) d * msPerDay)"

section \<open>The analytics of a jar collection\<close>

subsection \<open>Data\<close>

datatype TransactionType = Saved | Withdrawn

record TransactionRecord =
  rec_id :: int
  type :: TransactionType
  amount :: rat
  date :: Date

record Jar =
  jar_id :: int
  name :: string
  target :: rat
  saved :: rat
  streak :: rat
  withdrawn :: rat
  currency :: "string option"
  records :: "TransactionRecord list option"
  createdAt :: "string option"

text \<open>A transaction of the flattened list: the record's fields and the name of its jar.\<close>

record Transaction = TransactionRecord +
  jarName :: string

record Prediction =
  p_jarName :: string
  prediction :: "Date option"
  daysToGoal :: "int option"
  avgPerDay :: "rat option"

record DayStat =
  day :: string
  day_amount :: rat
  count :: nat

record DailyPoint =
  dp_date :: string
  dp_amount :: rat

record JarSlice =
  slice_name :: string
  slice_value :: rat
  color :: string

record WeekPoint =
  week :: string
  week_amount :: rat

subsection \<open>Array helpers\<close>

text \<open>\<open>xs.reduce((sum, t) => sum + t.amount, 0)\<close>\<close>

definition sumAmounts :: "'a TransactionRecord_scheme list \<Rightarrow> rat" where
  "sumAmounts ts = foldl (\<lambda>sum t. sum + amount t) 0 ts"

text \<open>\<open>xs.reduce(f)\<close> without a start value: a TypeError (here \<open>None\<close>) on an empty array.\<close>

fun reduce1 :: "('a \<Rightarrow> 'a \<Rightarrow> 'a) \<Rightarrow> 'a list \<Rightarrow> 'a option" where
  "reduce1 f [] = None"
| "reduce1 f (x # xs) = Some (foldl f x xs)"

text \<open>\<open>xs.slice(-n)\<close>: the last \<open>n\<close> elements, all of them when there are fewer.\<close>

definition slice_last :: "nat \<Rightarrow> 'a list \<Rightarrow> 'a list" where
  "slice_last n xs = drop (length xs - n) xs"

text \<open>\<open>[...new Set(xs)]\<close>: the distinct elements in the order of their first occurrence.\<close>

definition newSet :: "'a list \<Rightarrow> 'a list" where
  "newSet xs = rev (remdups (rev xs))"

text \<open>
  \<open>xs.indexOf(x)\<close> for an element of the array: the first position of an equal element
  (the source compares object identity, which the model does not have).
\<close>

definition indexOf :: "'a list \<Rightarrow> 'a \<Rightarrow> nat" where
  "indexOf xs x = length (takeWhile (\<lambda>y. y \<noteq> x) xs)"

subsection \<open>The derived values\<close>

definition chartColors :: "string list" where
  "chartColors = [''#8b5cf6'', ''#ec4899'', ''#3b82f6'', ''#10b981'', ''#f59e0b'', ''#ef4444'']"

definition currentMonth :: "Date \<Rightarrow> Interval" where
  "currentMonth now = \<lparr> start = startOfMonth now, end' = endOfMonth now \<rparr>"

definition lastMonth :: "Date \<Rightarrow> Interval" where
  "lastMonth now =
     \<lparr> start = startOfMonth (subMonths now 1), end' = endOfMonth (subMonths now 1) \<rparr>"

definition last30Days :: "Date \<Rightarrow> Date list" where
  "last30Days now = eachDayOfInterval \<lparr> start = subMonths now 1, end' = now \<rparr>"

definition jarRecords :: "Jar \<Rightarrow> TransactionRecord list" where
  "jarRecords jar = (case records jar of None \<Rightarrow> [] | Some rs \<Rightarrow> rs)"

definition tagged :: "Jar \<Rightarrow> Transaction list" where
  "tagged jar =
     map (\<lambda>record. \<lparr> rec_id = rec_id record, type = type record, amount = amount record,
                     date = date record, jarName = name jar \<rparr>)
       (jarRecords jar)"

text \<open>All records of all jars, sorted by date; the sort is stable.\<close>

definition allTransactions :: "Jar list \<Rightarrow> Transaction list" where
  "allTransactions jars = sort_key date (concat (map tagged jars))"

definition currentMonthSavings :: "Date \<Rightarrow> Jar list \<Rightarrow> rat" where
  "currentMonthSavings now jars =
     sumAmounts
       (filter (\<lambda>t. type t = Saved \<and> isWithinInterval (date t) (currentMonth now))
          (allTransactions jars))"

definition lastMonthSavings :: "Date \<Rightarrow> Jar list \<Rightarrow> rat" where
  "lastMonthSavings now jars =
     sumAmounts
       (filter (\<lambda>t. type t = Saved \<and> isWithinInterval (date t) (lastMonth now))
          (allTransactions jars))"

definition velocityPercent :: "Date \<Rightarrow> Jar list \<Rightarrow> rat" where
  "velocityPercent now jars =
     (if lastMonthSavings now jars > 0
      then ((currentMonthSavings now jars - lastMonthSavings now jars)
              / lastMonthSavings now jars) * 100
      else if currentMonthSavings now jars > 0 then 100 else 0)"

text \<open>
  The prediction of one jar. The constants \<open>jarTransactions\<close>,
  \<open>recentTransactions\<close>, \<open>daysBetween\<close> and \<open>avgPerDay\<close> of the source are
  functions of the jar here; the last three are used only after the length check, on at
  least two records, where \<open>hd\<close> and \<open>last\<close> exist. \<open>x || 1\<close> is 1 when \<open>x\<close> is 0.
  The unused \<open>avgAmount\<close> of the source is left out.
\<close>

definition jarTransactions :: "Jar \<Rightarrow> TransactionRecord list" where
  "jarTransactions jar = sort_key date (filter (\<lambda>r. type r = Saved) (jarRecords jar))"

definition recentTransactions :: "Jar \<Rightarrow> TransactionRecord list" where
  "recentTransactions jar = slice_last 10 (jarTransactions jar)"

definition daysBetween :: "Jar \<Rightarrow> int" where
  "daysBetween jar =
     (let firstDate = date (hd (recentTransactions jar));
          lastDate = date (last (recentTransactions jar));
          d = differenceInDays lastDate firstDate
      in if d = 0 then 1 else d)"

definition avgPerDayOf :: "Jar \<Rightarrow> rat" where
  "avgPerDayOf jar = sumAmounts (recentTransactions jar) / of_int (daysBetween jar)"

definition predictionOf :: "Date \<Rightarrow> Jar \<Rightarrow> Prediction" where
  "predictionOf now jar =
     (if length (jarTransactions jar) < 2
      then \<lparr> p_jarName = name jar, prediction = None, daysToGoal = None, avgPerDay = None \<rparr>
      else
        let remaining = target jar - saved jar;
            days = (if remaining > 0 \<and> avgPerDayOf jar > 0
                    then Some \<lceil>remaining / avgPerDayOf jar\<rceil> else None);
            predictedDate =
              (case days of
                 None \<Rightarrow> None
               | Some d \<Rightarrow> if d = 0 then None else Some (now + d * 24 * 60 * 60 * 1000))
        in \<lparr> p_jarName = name jar, prediction = predictedDate, daysToGoal = days,
             avgPerDay = Some (avgPerDayOf jar) \<rparr>)"

definition predictions :: "Date \<Rightarrow> Jar list \<Rightarrow> Prediction list" where
  "predictions now jars =
     filter (\<lambda>p. prediction p \<noteq> None) (map (predictionOf now) jars)"


definition dayNames :: "string list" where
  "dayNames = [''Sunday'', ''Monday'', ''Tuesday'', ''Wednesday'', ''Thursday'',
               ''Friday'', ''Saturday'']"

definition emptyDayStats :: "DayStat list" where
  "emptyDayStats = map (\<lambda>i. \<lparr> day = dayNames ! i, day_amount = 0, count = 0 \<rparr>) [0 ..< 7]"

definition addToDay :: "DayStat list \<Rightarrow> Transaction \<Rightarrow> DayStat list" where
  "addToDay stats t =
     (let dayIndex = nat (getDay (date t)); s = stats ! dayIndex
      in stats[dayIndex := s\<lparr> day_amount := day_amount s + amount t,
                               count := count s + 1 \<rparr>])"

definition dayOfWeekStats :: "Jar list \<Rightarrow> DayStat list" where
  "dayOfWeekStats jars =
     foldl addToDay emptyDayStats (filter (\<lambda>t. type t = Saved) (allTransactions jars))"

definition bestSavingDay :: "Jar list \<Rightarrow> DayStat option" where
  "bestSavingDay jars =
     reduce1 (\<lambda>best current. if day_amount current > day_amount best then current else best)
       (dayOfWeekStats jars)"

definition worstSavingDay :: "Jar list \<Rightarrow> DayStat option" where
  "worstSavingDay jars =
     reduce1 (\<lambda>worst current.
                if day_amount current < day_amount worst \<and> count current > 0
                then current else worst)
       (dayOfWeekStats jars)"

definition weekendSavings :: "Jar list \<Rightarrow> rat" where
  "weekendSavings jars =
     sumAmounts
       (filter (\<lambda>t. type t = Saved \<and> (getDay (date t) = 0 \<or> getDay (date t) = 6))
          (allTransactions jars))"

definition weekdaySavings :: "Jar list \<Rightarrow> rat" where
  "weekdaySavings jars =
     sumAmounts
       (filter (\<lambda>t. type t = Saved \<and> getDay (date t) > 0 \<and> getDay (date t) < 6)
          (allTransactions jars))"

subsection \<open>Streaks\<close>

definition savingDates :: "Jar list \<Rightarrow> ymd list" where
  "savingDates jars =
     map (\<lambda>t. format_ymd (date t)) (filter (\<lambda>t. type t = Saved) (allTransactions jars))"

definition uniqueDates :: "Jar list \<Rightarrow> ymd list" where
  "uniqueDates jars = sort (newSet (savingDates jars))"

text \<open>
  The first loop walks the unique dates from the latest one down, so it is given them
  in reverse; its state is \<open>streakCount\<close> and \<open>currentStreak\<close>, and \<open>break\<close>
  returns the state.
\<close>

fun currentStreakLoop :: "Date \<Rightarrow> ymd list \<Rightarrow> nat \<Rightarrow> nat \<Rightarrow> nat" where
  "currentStreakLoop now [] streakCount current = current"
| "currentStreakLoop now (u # us) streakCount current =
     (let date = parse_ymd u;
          expectedDate = setDate now (getDate now - int streakCount)
      in if format_ymd date = format_ymd expectedDate
         then currentStreakLoop now us (streakCount + 1) (current + 1)
         else current)"

definition currentStreak :: "Date \<Rightarrow> Jar list \<Rightarrow> nat" where
  "currentStreak now jars = currentStreakLoop now (rev (uniqueDates jars)) 0 0"

text \<open>
  The second loop runs over the pairs of neighbours \<open>uniqueDates[i - 1]\<close>,
  \<open>uniqueDates[i]\<close>; its state is \<open>tempStreak\<close> and \<open>longestStreak\<close>.
\<close>

fun longestStreakLoop :: "ymd list \<Rightarrow> nat \<Rightarrow> nat \<Rightarrow> nat" where
  "longestStreakLoop (p # c # rest) tempStreak longest =
     (let prevDate = parse_ymd p; currDate = parse_ymd c;
          diff = differenceInDays currDate prevDate
      in if diff = 1
         then longestStreakLoop (c # rest) (tempStreak + 1) (max longest (tempStreak + 1))
         else longestStreakLoop (c # rest) 1 longest)"
| "longestStreakLoop _ tempStreak longest = longest"

definition longestStreak :: "Jar list \<Rightarrow> nat" where
  "longestStreak jars = longestStreakLoop (uniqueDates jars) 1 0"

subsection \<open>Series and distribution\<close>

definition monthNames :: "string list" where
  "monthNames = [''Jan'', ''Feb'', ''Mar'', ''Apr'', ''May'', ''Jun'', ''Jul'', ''Aug'',
                 ''Sep'', ''Oct'', ''Nov'', ''Dec'']"

definition digit :: "int \<Rightarrow> string" where
  "digit n = [''0123456789'' ! nat n]"

text \<open>\<open>format(d, 'MMM dd')\<close>\<close>

definition format_MMMdd :: "Date \<Rightarrow> string" where
  "format_MMMdd t =
     monthNames ! nat (getMonth t) @ '' '' @ digit (getDate t div 10) @ digit (getDate t mod 10)"

definition dailySavingsData :: "Date \<Rightarrow> Jar list \<Rightarrow> DailyPoint list" where
  "dailySavingsData now jars =
     map (\<lambda>d. let dayStr = format_ymd d;
                  dayTotal = sumAmounts
                    (filter (\<lambda>t. type t = Saved \<and> format_ymd (date t) = dayStr)
                       (allTransactions jars))
              in \<lparr> dp_date = format_MMMdd d, dp_amount = dayTotal \<rparr>)
       (last30Days now)"

definition jarDistribution :: "Jar list \<Rightarrow> JarSlice list" where
  "jarDistribution jars =
     map (\<lambda>jar. \<lparr> slice_name = (if length (name jar) > 15 then take 15 (name jar) @ ''...''
                                 else name jar),
                  slice_value = saved jar,
                  color = chartColors ! (indexOf jars jar mod length chartColors) \<rparr>)
       jars"

definition weekOf :: "Date \<Rightarrow> Jar list \<Rightarrow> int \<Rightarrow> WeekPoint" where
  "weekOf now jars i =
     (let weekStart0 = subMonths now 0;
          weekStart = setDate weekStart0 (getDate weekStart0 - i * 7);
          weekEnd = setDate weekStart (getDate weekStart + 6);
          weekSavings = sumAmounts
            (filter (\<lambda>t. type t = Saved
                        \<and> isWithinInterval (date t) \<lparr> start = weekStart, end' = weekEnd \<rparr>)
               (allTransactions jars))
      in \<lparr> week = ''Week '' @ digit (4 - i), week_amount = weekSavings \<rparr>)"

definition weeklyData :: "Date \<Rightarrow> Jar list \<Rightarrow> WeekPoint list" where
  "weeklyData now jars = map (weekOf now jars) [3, 2, 1, 0]"

definition totalSaved :: "Jar list \<Rightarrow> rat" where
  "totalSaved jars = foldl (\<lambda>sum jar. sum + saved jar) 0 jars"

subsection \<open>The bundle\<close>

record Analytics =
  velocityPercent' :: rat
  currentMonthSavings' :: rat
  lastMonthSavings' :: rat
  predictions' :: "Prediction list"
  dayOfWeekStats' :: "DayStat list"
  bestSavingDay' :: "DayStat option"
  worstSavingDay' :: "DayStat option"
  weekendSavings' :: rat
  weekdaySavings' :: rat
  currentStreak' :: nat
  longestStreak' :: nat
  dailySavingsData' :: "DailyPoint list"
  jarDistribution' :: "JarSlice list"
  weeklyData' :: "WeekPoint list"
  totalSaved' :: rat

definition analytics :: "Date \<Rightarrow> Jar list \<Rightarrow> Analytics" where
  "analytics now jars =
     \<lparr> velocityPercent' = velocityPercent now jars,
       currentMonthSavings' = currentMonthSavings now jars,
       lastMonthSavings' = lastMonthSavings now jars,
       predictions' = predictions now jars,
       dayOfWeekStats' = dayOfWeekStats jars,
       bestSavingDay' = bestSavingDay jars,
       worstSavingDay' = worstSavingDay jars,
       weekendSavings' = weekendSavings jars,
       weekdaySavings' = weekdaySavings jars,
       currentStreak' = currentStreak now jars,
       longestStreak' = longestStreak jars,
       dailySavingsData' = dailySavingsData now jars,
       jarDistribution' = jarDistribution jars,
       weeklyData' = weeklyData now jars,
       totalSaved' = totalSaved jars \<rparr>"

section \<open>CircleVisualization\<close>

record Segments =
  redProgress :: rat
  orangeProgress :: rat
  blueProgress :: rat
  greenProgress :: rat

definition CircleVisualization :: "rat \<Rightarrow> Segments" where
  "CircleVisualization progress =
     \<lparr> redProgress = min progress 25,
       orangeProgress = min (max (progress - 25) 0) 25,
       blueProgress = min (max (progress - 50) 0) 25,
       greenProgress = min (max (progress - 75) 0) 25 \<rparr>"

section \<open>Example inputs\<close>

text \<open>
  \<open>now0\<close> is Friday 2024-03-15, 12:00 UTC. The jar \<open>carJar\<close> has saved 10 on Monday
  2024-03-11 and 5 on Saturday 2024-03-09, and withdrawn 3 on Tuesday 2024-03-12.
\<close>

definition now0 :: Date where
  "now0 = 1710504000000"

definition carJar :: Jar where
  "carJar =
     \<lparr> jar_id = 1, name = ''Car'', target = 100, saved = 50, streak = 0, withdrawn = 0,
       currency = None,
       records = Some
         [\<lparr> rec_id = 1, type = Saved, amount = 10, date = 1710158400000 \<rparr>,
          \<lparr> rec_id = 2, type = Saved, amount = 5, date = 1709985600000 \<rparr>,
          \<lparr> rec_id = 3, type = Withdrawn, amount = 3, date = 1710244800000 \<rparr>],
       createdAt = None \<rparr>"

text \<open>
  The jar \<open>houseJar\<close> has reached its target. It has saved 25 in the first millisecond
  of March 2024, 8 in the last and 2 in the first millisecond of February 2024, and 7 in
  the last millisecond of January 2024.
\<close>

definition houseJar :: Jar where
  "houseJar =
     \<lparr> jar_id = 2, name = ''House deposit 2024'', target = 30, saved = 42, streak = 0,
       withdrawn = 0, currency = Some ''EUR'',
       records = Some
         [\<lparr> rec_id = 4, type = Saved, amount = 25, date = 1709251200000 \<rparr>,
          \<lparr> rec_id = 5, type = Saved, amount = 8, date = 1709251199999 \<rparr>,
          \<lparr> rec_id = 6, type = Saved, amount = 2, date = 1706745600000 \<rparr>,
          \<lparr> rec_id = 7, type = Saved, amount = 7, date = 1706745599999 \<rparr>],
       createdAt = None \<rparr>"

text \<open>
  The jar \<open>mondayJar\<close> has one record: 10 saved on Monday 2024-03-11. The jar
  \<open>todayJar\<close> has one record: 10 saved at \<open>now0\<close>.
\<close>

definition mondayJar :: Jar where
  "mondayJar =
     \<lparr> jar_id = 3, name = ''Bike'', target = 200, saved = 10, streak = 0, withdrawn = 0,
       currency = None,
       records = Some [\<lparr> rec_id = 8, type = Saved, amount = 10, date = 1710158400000 \<rparr>],
       createdAt = None \<rparr>"

definition todayJar :: Jar where
  "todayJar =
     \<lparr> jar_id = 4, name = ''Trip'', target = 200, saved = 10, streak = 1, withdrawn = 0,
       currency = None,
       records = Some [\<lparr> rec_id = 9, type = Saved, amount = 10, date = 1710504000000 \<rparr>],
       createdAt = None \<rparr>"

section \<open>Properties\<close>

subsection \<open>Sums over sorted and filtered lists\<close>

lemma foldl_add_amount:
  "foldl (\<lambda>sum t. sum + amount t) a ts = a + sum_list (map amount ts)"
  by (induction ts arbitrary: a) (simp_all add: add.assoc)

lemma sumAmounts_sum_list: "sumAmounts ts = sum_list (map amount ts)"
  by (simp add: sumAmounts_def foldl_add_amount)

lemma sum_list_insort_key:
  "sum_list (map f (insort_key k x xs)) = f x + sum_list (map f xs)"
  for f :: "'a \<Rightarrow> 'b::comm_monoid_add"
  by (induction xs) (simp_all add: add.left_commute)

lemma sum_list_sort_key:
  "sum_list (map f (sort_key k xs)) = sum_list (map f xs)"
  for f :: "'a \<Rightarrow> 'b::comm_monoid_add"
  by (induction xs) (simp_all add: sum_list_insort_key)

lemma sum_saved_sorted:
  "sumAmounts (filter P (sort_key k ts)) = sum_list (map amount (filter P ts))"
  by (simp add: sumAmounts_sum_list filter_sort sum_list_sort_key)

text \<open>Tagging a record with the jar's name changes neither its type, amount nor date.\<close>

lemma saved_tagged:
  "map amount (filter (\<lambda>t. type t = Saved \<and> P (date t)) (tagged jar))
   = map amount (filter (\<lambda>r. type r = Saved \<and> P (date r)) (jarRecords jar))"
  unfolding tagged_def by (induction "jarRecords jar") (simp_all add: filter_map comp_def)

lemma saved_all_tagged:
  "map amount (filter (\<lambda>t. type t = Saved \<and> P (date t)) (concat (map tagged jars)))
   = map amount (filter (\<lambda>r. type r = Saved \<and> P (date r)) (concat (map jarRecords jars)))"
  by (induction jars) (simp_all add: saved_tagged)



subsection \<open>Weekend and weekday\<close>



subsection \<open>Colour segments\<close>

text \<open>
  C8. For a progress value between 0 and 100, each of the four colour segments lies
  between 0 and 25 and the four add up to the progress; above 100 they add up to 100.
\<close>

theorem circle_segments:
  "(0 \<le> p \<and> p \<le> 100 \<longrightarrow>
      (let s = CircleVisualization p
       in 0 \<le> redProgress s \<and> redProgress s \<le> 25
        \<and> 0 \<le> orangeProgress s \<and> orangeProgress s \<le> 25
        \<and> 0 \<le> blueProgress s \<and> blueProgress s \<le> 25
        \<and> 0 \<le> greenProgress s \<and> greenProgress s \<le> 25
        \<and> redProgress s + orangeProgress s + blueProgress s + greenProgress s = p))
\<and> (100 < p \<longrightarrow>
      (let s = CircleVisualization p
       in redProgress s + orangeProgress s + blueProgress s + greenProgress s = 100))"
  by (simp add: CircleVisualization_def Let_def min_def max_def)

theorem circle_segments_witness:
  "(let s = CircleVisualization 60
    in redProgress s = 25 \<and> orangeProgress s = 25 \<and> blueProgress s = 10
     \<and> greenProgress s = 0
     \<and> redProgress s + orangeProgress s + blueProgress s + greenProgress s = 60)
 \<and> (let s = CircleVisualization 130
    in redProgress s + orangeProgress s + blueProgress s + greenProgress s = 100)"
  using circle_segments [of 60] circle_segments [of 130]
  by (simp add: CircleVisualization_def Let_def)

subsection \<open>Day-of-week buckets\<close>













subsection \<open>The calendar\<close>

lemma div_step:
  "(x + 1) div k = x div k + (if (x + 1) mod k = 0 then 1 else 0)" if "1 < k" for x k :: int
proof -
  define r where "r = x mod k"
  have r: "0 \<le> r" "r < k" using that by (simp_all add: r_def)
  have d: "(x + 1) div k = x div k + (r + 1) div k"
    using that by (simp add: div_add1_eq [of x 1 k] r_def)
  have m: "(x + 1) mod k = (r + 1) mod k"
    by (simp add: r_def mod_add_left_eq)
  show ?thesis
  proof (cases "r + 1 = k")
    case True
    then show ?thesis using d m that by simp
  next
    case False
    then have "r + 1 < k" using r by simp
    then have "(r + 1) div k = 0" "(r + 1) mod k = r + 1" using r by simp_all
    then show ?thesis using d m r by simp
  qed
qed

lemma div_bounds: "k * (x div k) \<le> x" "x < k * (x div k) + k" if "0 < k" for x k :: int
proof -
  have "x = k * (x div k) + x mod k" by simp
  moreover have "0 \<le> x mod k" "x mod k < k" using that by simp_all
  ultimately show "k * (x div k) \<le> x" "x < k * (x div k) + k" by linarith+
qed

lemma leap_mod:
  "(y - 1968) mod 4 = 0 \<longleftrightarrow> y mod 4 = 0"
  "(y - 1900) mod 100 = 0 \<longleftrightarrow> y mod 100 = 0"
  "(y - 1600) mod 400 = 0 \<longleftrightarrow> y mod 400 = 0" for y :: int
  using mod_diff_right_eq [of y 1968 4] mod_diff_right_eq [of y 1900 100]
    mod_diff_right_eq [of y 1600 400]
  by simp_all

lemma mod_100_4: "y mod 100 = 0 \<Longrightarrow> y mod 4 = 0" for y :: int
proof -
  assume "y mod 100 = 0"
  then have "100 dvd y" by (simp add: mod_eq_0_iff_dvd)
  moreover have "(4::int) dvd 100" by simp
  ultimately have "4 dvd y" using dvd_trans by blast
  then show ?thesis by (simp add: mod_eq_0_iff_dvd)
qed

lemma mod_400_100: "y mod 400 = 0 \<Longrightarrow> y mod 100 = 0" for y :: int
proof -
  assume "y mod 400 = 0"
  then have "400 dvd y" by (simp add: mod_eq_0_iff_dvd)
  moreover have "(100::int) dvd 400" by simp
  ultimately have "100 dvd y" using dvd_trans by blast
  then show ?thesis by (simp add: mod_eq_0_iff_dvd)
qed


lemma leap_arith:
  "365 * (y + 1 - 1970) + (A + (if p4 then 1 else 0)) - (B + (if p100 then 1 else 0))
     + (C + (if p400 then 1 else 0))
   = 365 * (y - 1970) + A - B + C + (if p4 \<and> (\<not> p100 \<or> p400) then 366 else 365)"
  if "p100 \<longrightarrow> p4" "p400 \<longrightarrow> p100" for y A B C :: int
  using that by (cases p4; cases p100; cases p400) simp_all

lemma DayFromYear_step: "DayFromYear (y + 1) = DayFromYear y + DaysInYear y"
proof -
  have a: "(y + 1 - 1969) div 4 = (y - 1969) div 4 + (if y mod 4 = 0 then 1 else 0)"
    using div_step [of 4 "y - 1969"] leap_mod(1) [of y] by (simp add: algebra_simps)
  have b: "(y + 1 - 1901) div 100 = (y - 1901) div 100 + (if y mod 100 = 0 then 1 else 0)"
    using div_step [of 100 "y - 1901"] leap_mod(2) [of y] by (simp add: algebra_simps)
  have c: "(y + 1 - 1601) div 400 = (y - 1601) div 400 + (if y mod 400 = 0 then 1 else 0)"
    using div_step [of 400 "y - 1601"] leap_mod(3) [of y] by (simp add: algebra_simps)
  have "DayFromYear (y + 1)
      = DayFromYear y + (if y mod 4 = 0 \<and> (\<not> y mod 100 = 0 \<or> y mod 400 = 0) then 366 else 365)"
    unfolding DayFromYear_def a b c
    using mod_100_4 [of y] mod_400_100 [of y]
    by (intro leap_arith) blast+
  then show ?thesis
    by (simp add: DaysInYear_def InLeapYear_def)
qed

lemma DayFromYear_bounds:
  "146097 * y - 287811596 \<le> 400 * DayFromYear y"
  "400 * DayFromYear y \<le> 146097 * y - 287810501"
proof -
  define a b c where "a = (y - 1969) div 4" and "b = (y - 1901) div 100"
    and "c = (y - 1601) div 400"
  have f: "4 * a \<le> y - 1969" "y - 1969 \<le> 4 * a + 3"
    "100 * b \<le> y - 1901" "y - 1901 \<le> 100 * b + 99"
    "400 * c \<le> y - 1601" "y - 1601 \<le> 400 * c + 399"
    unfolding a_def b_def c_def
    using div_bounds [of 4 "y - 1969"] div_bounds [of 100 "y - 1901"]
      div_bounds [of 400 "y - 1601"] by simp_all
  have e: "DayFromYear y = 365 * y - 719050 + a - b + c"
    by (simp add: DayFromYear_def a_def b_def c_def algebra_simps)
  show "146097 * y - 287811596 \<le> 400 * DayFromYear y"
    using f e by linarith
  show "400 * DayFromYear y \<le> 146097 * y - 287810501"
    using f e by linarith
qed


lemma YearFromDay_correct:
  "DayFromYear (YearFromDay d) \<le> d" "d < DayFromYear (YearFromDay d + 1)"
proof -
  define y0 where "y0 = 1970 + (400 * d) div 146097"
  define q where "q = (400 * d) div 146097"
  have q: "146097 * q \<le> 400 * d" "400 * d < 146097 * q + 146097"
    unfolding q_def using div_bounds [of 146097 "400 * d"] by simp_all
  have y0: "y0 = q + 1970" by (simp add: y0_def q_def)
  define ym yp where "ym = y0 - 1" and "yp = y0 + 2"
  have lo: "DayFromYear (y0 - 1) \<le> d"
    using DayFromYear_bounds(2) [of ym] q y0 unfolding ym_def [symmetric]
    by (simp add: ym_def)
  have hi: "d < DayFromYear (y0 + 2)"
    using DayFromYear_bounds(1) [of yp] q y0 unfolding yp_def [symmetric]
    by (simp add: yp_def)
  have s: "y0 + 1 + 1 = y0 + 2" "y0 - 1 + 1 = y0" by simp_all
  show "DayFromYear (YearFromDay d) \<le> d" "d < DayFromYear (YearFromDay d + 1)"
    using lo hi unfolding YearFromDay_def Let_def y0_def [symmetric]
    by (auto simp: s)
qed

lemma DaysInYear_ge: "365 \<le> DaysInYear y" "DaysInYear y \<le> 366"
  by (simp_all add: DaysInYear_def)

lemma DayFromYear_add: "DayFromYear y + 365 * int n \<le> DayFromYear (y + int n)"
proof (induction n)
  case 0
  then show ?case by simp
next
  case (Suc n)
  have "DayFromYear (y + int (Suc n)) = DayFromYear (y + int n) + DaysInYear (y + int n)"
    using DayFromYear_step [of "y + int n"] by (simp add: add.commute add.left_commute)
  then show ?case
    using Suc DaysInYear_ge(1) [of "y + int n"] by (simp add: algebra_simps)
qed

lemma DayFromYear_mono: "DayFromYear y \<le> DayFromYear y'" if "y \<le> y'"
proof -
  from that obtain n where "y' = y + int n"
    by (metis zle_iff_zadd)
  then show ?thesis
    using DayFromYear_add [of y n] by simp
qed

lemma YearFromDay_unique:
  "YearFromDay d = y" if "DayFromYear y \<le> d" "d < DayFromYear (y + 1)"
proof (rule ccontr)
  assume ne: "YearFromDay d \<noteq> y"
  define y' where "y' = YearFromDay d"
  have c: "DayFromYear y' \<le> d" "d < DayFromYear (y' + 1)"
    unfolding y'_def by (rule YearFromDay_correct)+
  show False
  proof (cases "y' < y")
    case True
    then have "DayFromYear (y' + 1) \<le> DayFromYear y"
      by (intro DayFromYear_mono) simp
    then show False using c that by linarith
  next
    case False
    then have "y + 1 \<le> y'" using ne by (simp add: y'_def)
    then have "DayFromYear (y + 1) \<le> DayFromYear y'"
      by (rule DayFromYear_mono)
    then show False using c that by linarith
  qed
qed

lemma DayWithinYear_range:
  "0 \<le> DayWithinYear d" "DayWithinYear d < DaysInYear (YearFromDay d)"
  using YearFromDay_correct [of d] DayFromYear_step [of "YearFromDay d"]
  by (simp_all add: DayWithinYear_def)

lemma MonthFromDay_range: "0 \<le> MonthFromDay d" "MonthFromDay d \<le> 11"
  by (simp_all add: MonthFromDay_def Let_def)

lemma MakeDay_month: "MakeDay y m dt = DayFromYear y + MonthStart (InLeapYear y) m + dt - 1"
  if "0 \<le> m" "m \<le> 11"
proof -
  have "m div 12 = 0" "m mod 12 = m" using that by simp_all
  then show ?thesis by (simp add: MakeDay_def)
qed

lemma MakeDay_roundtrip:
  "MakeDay (YearFromDay d) (MonthFromDay d) (DateFromDay d) = d"
  using MonthFromDay_range [of d]
  by (simp add: MakeDay_month DateFromDay_def DayWithinYear_def)

lemma MakeDay_date:
  "MakeDay (YearFromDay d) (MonthFromDay d) dt = d - DateFromDay d + dt"
  using MonthFromDay_range [of d]
  by (simp add: MakeDay_month DateFromDay_def DayWithinYear_def)

lemma DateFromDay_range: "1 \<le> DateFromDay d" "DateFromDay d \<le> 31"
proof -
  define w l where "w = DayWithinYear d" and "l = (if InLeapYear (YearFromDay d) then 1 else 0 :: int)"
  have w: "0 \<le> w" "w < 365 + l"
    using DayWithinYear_range [of d] by (auto simp: w_def l_def DaysInYear_def split: if_splits)
  have l: "l = 0 \<or> l = 1" by (simp add: l_def)
  have e: "DateFromDay d =
     w - (if w < 31 then 0 else if w < 59 + l then 31 else if w < 90 + l then 59 + l
         else if w < 120 + l then 90 + l else if w < 151 + l then 120 + l
         else if w < 181 + l then 151 + l else if w < 212 + l then 181 + l
         else if w < 243 + l then 212 + l else if w < 273 + l then 243 + l
         else if w < 304 + l then 273 + l else if w < 334 + l then 304 + l else 334 + l) + 1"
    unfolding DateFromDay_def MonthFromDay_def MonthStart_def Let_def w_def [symmetric]
      l_def [symmetric]
    by simp
  show "1 \<le> DateFromDay d" unfolding e using w l by (simp split: if_splits)
  show "DateFromDay d \<le> 31" unfolding e using w l by (auto split: if_splits)
qed

lemma Day_compose: "Day (k * msPerDay + r) = k" if "0 \<le> r" "r < msPerDay"
proof -
  have "0 < msPerDay" by (simp add: msPerDay_def)
  then show ?thesis
    using that unfolding Day_def
    by (simp add: div_pos_pos_trivial)
qed

lemma TimeWithinDay_range: "0 \<le> TimeWithinDay t" "TimeWithinDay t < msPerDay"
  by (simp_all add: TimeWithinDay_def msPerDay_def)

lemma Day_setFullYear: "Day (setFullYear t y m d) = MakeDay y m d"
  unfolding setFullYear_def by (rule Day_compose) (rule TimeWithinDay_range)+

text \<open>The day before the first of a month is the last day of the month before.\<close>

lemma last_day_of_previous_month:
  "28 \<le> DateFromDay (DayFromYear y + MonthStart (InLeapYear y) m - 1)"
  if "0 \<le> m" "m \<le> 11"
proof (cases "m = 0")
  case True
  define E where "E = DayFromYear y - 1"
  have s: "DayFromYear y = DayFromYear (y - 1) + DaysInYear (y - 1)"
    using DayFromYear_step [of "y - 1"] by simp
  have yE: "YearFromDay E = y - 1"
    using s DaysInYear_ge(1) [of "y - 1"] by (intro YearFromDay_unique) (simp_all add: E_def)
  have w: "DayWithinYear E = DaysInYear (y - 1) - 1"
    using s by (simp add: DayWithinYear_def yE) (simp add: E_def)
  have "DateFromDay E = 31"
    by (simp add: DateFromDay_def MonthFromDay_def MonthStart_def Let_def yE w DaysInYear_def)
  then show ?thesis using True by (simp add: MonthStart_def E_def)
next
  case False
  define E where "E = DayFromYear y + MonthStart (InLeapYear y) m - 1"
  have m: "m = 1 \<or> m = 2 \<or> m = 3 \<or> m = 4 \<or> m = 5 \<or> m = 6 \<or> m = 7 \<or> m = 8 \<or> m = 9
      \<or> m = 10 \<or> m = 11"
    using that False by presburger
  have r: "31 \<le> MonthStart (InLeapYear y) m \<and> MonthStart (InLeapYear y) m \<le> 335"
    using m by (elim disjE) (simp_all add: MonthStart_def)
  have yE: "YearFromDay E = y"
    using r DayFromYear_step [of y] DaysInYear_ge(1) [of y]
    by (intro YearFromDay_unique) (simp_all add: E_def)
  have w: "DayWithinYear E = MonthStart (InLeapYear y) m - 1"
    by (simp add: DayWithinYear_def yE) (simp add: E_def)
  have "28 \<le> DateFromDay E"
    unfolding DateFromDay_def MonthFromDay_def Let_def yE w
    using m by (elim disjE) (simp_all add: MonthStart_def)
  then show ?thesis by (simp add: E_def)
qed

subsection \<open>Months and intervals\<close>

lemma Day_mono: "Day s \<le> Day e" if "s \<le> e"
  using that unfolding Day_def by (intro zdiv_mono1) (simp_all add: msPerDay_def)

lemma first_le_last_of_month:
  "MakeDay y m 1 \<le> MakeDay y (m + 1) 0" if "0 \<le> m" "m \<le> 11"
proof (cases "m = 11")
  case True
  have "MakeDay y 12 0 = DayFromYear (y + 1) - 1"
    by (simp add: MakeDay_def MonthStart_def)
  moreover have "MakeDay y 11 1 = DayFromYear y + MonthStart (InLeapYear y) 11"
    by (simp add: MakeDay_month)
  ultimately show ?thesis
    using True DayFromYear_step [of y]
    by (simp add: MonthStart_def DaysInYear_def)
next
  case False
  then have m: "m = 0 \<or> m = 1 \<or> m = 2 \<or> m = 3 \<or> m = 4 \<or> m = 5 \<or> m = 6 \<or> m = 7 \<or> m = 8
      \<or> m = 9 \<or> m = 10"
    using that by presburger
  have "MonthStart (InLeapYear y) m + 1 \<le> MonthStart (InLeapYear y) (m + 1)"
    using m by (elim disjE) (simp_all add: MonthStart_def)
  moreover have "0 \<le> m + 1" "m + 1 \<le> 11" using that False by simp_all
  ultimately show ?thesis
    using that by (simp add: MakeDay_month)
qed

lemma startOfMonth_le_endOfMonth: "startOfMonth t \<le> endOfMonth t"
proof -
  have "MakeDay (getFullYear t) (getMonth t) 1 \<le> MakeDay (getFullYear t) (getMonth t + 1) 0"
    using MonthFromDay_range [of "Day t"] by (intro first_le_last_of_month) (simp_all add: getMonth_def)
  then have "MakeDay (getFullYear t) (getMonth t) 1 * msPerDay
      \<le> MakeDay (getFullYear t) (getMonth t + 1) 0 * msPerDay"
    by (intro mult_right_mono) (simp_all add: msPerDay_def)
  then show ?thesis
    by (simp add: startOfMonth_def endOfMonth_def msPerDay_def)
qed

lemma isWithinInterval_month:
  "isWithinInterval d \<lparr> start = startOfMonth t, end' = endOfMonth t \<rparr>
   \<longleftrightarrow> startOfMonth t \<le> d \<and> d \<le> endOfMonth t"
  using startOfMonth_le_endOfMonth [of t] by (simp add: isWithinInterval_def Let_def)

lemma Day_subMonths_1:
  "Day (subMonths now 1) =
     (let z = Day now; E = z - DateFromDay z; D = DateFromDay E
      in if D \<le> DateFromDay z then E else E - D + DateFromDay z)"
proof -
  define z where "z = Day now"
  define eodm where "eodm = setFullYear now (getFullYear now) (getMonth now) 0"
  have E: "Day eodm = z - DateFromDay z"
    by (simp add: eodm_def Day_setFullYear getFullYear_def getMonth_def MakeDay_date z_def)
  have s: "subMonths now 1 =
      (if getDate eodm \<le> getDate now then eodm
       else setFullYear now (getFullYear eodm) (getMonth eodm) (getDate now))"
    by (simp add: subMonths_def addMonths_def Let_def eodm_def)
  show ?thesis
    unfolding s z_def [symmetric] Let_def
    by (simp add: E Day_setFullYear getFullYear_def getMonth_def getDate_def MakeDay_date
        z_def [symmetric])
qed

lemma subMonths_1_days:
  "28 \<le> Day now - Day (subMonths now 1)" "Day now - Day (subMonths now 1) \<le> 31"
proof -
  define z where "z = Day now"
  define E where "E = z - DateFromDay z"
  have "E = MakeDay (YearFromDay z) (MonthFromDay z) 0"
    by (simp add: MakeDay_date E_def)
  also have "\<dots> = DayFromYear (YearFromDay z)
      + MonthStart (InLeapYear (YearFromDay z)) (MonthFromDay z) - 1"
    using MonthFromDay_range [of z] by (simp add: MakeDay_month)
  finally have "28 \<le> DateFromDay E"
    using last_day_of_previous_month [of "MonthFromDay z" "YearFromDay z"]
      MonthFromDay_range [of z] by simp
  moreover note DateFromDay_range [of E] DateFromDay_range [of z]
  moreover have "z = E + DateFromDay z" by (simp add: E_def)
  ultimately show "28 \<le> Day now - Day (subMonths now 1)"
    "Day now - Day (subMonths now 1) \<le> 31"
    unfolding Day_subMonths_1 Let_def z_def [symmetric] E_def [symmetric]
    by auto
qed

lemma last30Days_eq:
  "last30Days now = map (\<lambda>k. k * msPerDay) [Day (subMonths now 1) .. Day now]"
proof -
  have "\<not> now < subMonths now 1"
  proof
    assume "now < subMonths now 1"
    then have "Day now \<le> Day (subMonths now 1)" by (intro Day_mono) simp
    then show False using subMonths_1_days(1) [of now] by simp
  qed
  then show ?thesis
    by (simp add: last30Days_def eachDayOfInterval_def Let_def)
qed

text \<open>
  C3, as amended. The weekly series has exactly 4 entries. The daily series has one entry
  per calendar day from \<open>subMonths(now, 1)\<close> to today, both included; their number
  is between 29 and 32 and depends on the month (the claim says always exactly 31).
\<close>

theorem series_lengths:
  "length (weeklyData now jars) = 4
   \<and> map dp_date (dailySavingsData now jars)
       = map (\<lambda>k. format_MMMdd (k * msPerDay)) [Day (subMonths now 1) .. Day now]
   \<and> int (length (dailySavingsData now jars)) = Day now - Day (subMonths now 1) + 1
   \<and> 29 \<le> length (dailySavingsData now jars)
   \<and> length (dailySavingsData now jars) \<le> 32"
proof -
  have n: "int (length (dailySavingsData now jars)) = Day now - Day (subMonths now 1) + 1"
    using subMonths_1_days(1) [of now]
    by (simp add: dailySavingsData_def last30Days_eq)
  have "map dp_date (dailySavingsData now jars)
       = map (\<lambda>k. format_MMMdd (k * msPerDay)) [Day (subMonths now 1) .. Day now]"
    by (simp add: dailySavingsData_def last30Days_eq Let_def comp_def)
  moreover have "length (weeklyData now jars) = 4"
    by (simp add: weeklyData_def)
  ultimately show ?thesis
    using n subMonths_1_days [of now] by simp
qed

text \<open>
  On 2024-03-15 the series runs from 2024-02-15 and has 30 entries, not 31.
\<close>

theorem series_lengths_counterexample:
  "length (dailySavingsData now0 [carJar]) = 30 \<and> length (dailySavingsData now0 [carJar]) \<noteq> 31"
proof -
  have "length (last30Days now0) = 30"
    by code_simp
  then show ?thesis
    by (simp add: dailySavingsData_def)
qed

theorem series_lengths_witness:
  "length (weeklyData now0 [carJar]) = 4 \<and> Day now0 - Day (subMonths now0 1) + 1 = 30
   \<and> length (dailySavingsData now0 [carJar]) = 30"
proof -
  have "Day now0 - Day (subMonths now0 1) + 1 = 30"
    by code_simp
  then show ?thesis
    using series_lengths [of now0 "[carJar]"] by simp
qed

subsection \<open>The empty collection\<close>

lemma allTransactions_Nil: "allTransactions [] = []"
  by (simp add: allTransactions_def)

text \<open>
  C7. For the empty jar collection every number of the bundle is 0, the predictions and
  the jar distribution are empty, and every entry of the daily and of the weekly series
  has amount 0.
\<close>

theorem empty_bundle:
  "(let a = analytics now []
    in velocityPercent' a = 0 \<and> currentMonthSavings' a = 0 \<and> lastMonthSavings' a = 0
     \<and> weekendSavings' a = 0 \<and> weekdaySavings' a = 0
     \<and> currentStreak' a = 0 \<and> longestStreak' a = 0 \<and> totalSaved' a = 0
     \<and> predictions' a = [] \<and> jarDistribution' a = []
     \<and> (\<forall>e \<in> set (dailySavingsData' a). dp_amount e = 0)
     \<and> (\<forall>w \<in> set (weeklyData' a). week_amount w = 0))"
proof -
  have "velocityPercent now [] = 0" "currentMonthSavings now [] = 0" "lastMonthSavings now [] = 0"
    by (simp_all add: velocityPercent_def currentMonthSavings_def lastMonthSavings_def
        allTransactions_Nil sumAmounts_def)
  moreover have "weekendSavings [] = 0" "weekdaySavings [] = 0" "totalSaved [] = 0"
    by (simp_all add: weekendSavings_def weekdaySavings_def totalSaved_def allTransactions_Nil
        sumAmounts_def)
  moreover have "currentStreak now [] = 0" "longestStreak [] = 0"
    by (simp_all add: currentStreak_def longestStreak_def uniqueDates_def savingDates_def
        newSet_def allTransactions_Nil)
  moreover have "predictions now [] = []" "jarDistribution [] = []"
    by (simp_all add: predictions_def jarDistribution_def)
  moreover have "\<forall>e \<in> set (dailySavingsData now []). dp_amount e = 0"
    by (auto simp: dailySavingsData_def allTransactions_Nil sumAmounts_def Let_def)
  moreover have "\<forall>w \<in> set (weeklyData now []). week_amount w = 0"
    by (simp add: weeklyData_def weekOf_def allTransactions_Nil sumAmounts_def Let_def)
  ultimately show ?thesis
    by (simp add: analytics_def Let_def)
qed

theorem empty_bundle_witness:
  "velocityPercent' (analytics now0 []) = 0
   \<and> longestStreak' (analytics now0 []) = 0
   \<and> map dp_amount (dailySavingsData' (analytics now0 [])) = replicate 30 0
   \<and> map week_amount (weeklyData' (analytics now0 [])) = [0, 0, 0, 0]"
proof -
  define ds ws where "ds = dailySavingsData' (analytics now0 [])"
    and "ws = weeklyData' (analytics now0 [])"
  have e: "velocityPercent' (analytics now0 []) = 0" "longestStreak' (analytics now0 []) = 0"
    "\<forall>e \<in> set ds. dp_amount e = 0" "\<forall>w \<in> set ws. week_amount w = 0"
    using empty_bundle [of now0] by (simp_all add: Let_def ds_def ws_def)
  have "length (last30Days now0) = 30"
    by code_simp
  then have "length ds = 30"
    by (simp add: ds_def analytics_def dailySavingsData_def)
  moreover have "map dp_amount ds = map (\<lambda>_. 0) ds"
    using e(3) by (intro map_cong) simp_all
  ultimately have d: "map dp_amount ds = replicate 30 0"
    by (simp add: map_replicate_const)
  have "length ws = 4"
    by (simp add: ws_def analytics_def weeklyData_def)
  moreover have "map week_amount ws = map (\<lambda>_. 0) ws"
    using e(4) by (intro map_cong) simp_all
  ultimately have "map week_amount ws = replicate 4 0"
    by (simp add: map_replicate_const)
  then have w: "map week_amount ws = [0, 0, 0, 0]"
    by (simp add: numeral_eq_Suc)
  show ?thesis
    using e(1,2) d w by (simp add: ds_def ws_def)
qed

subsection \<open>Velocity\<close>

lemma month_savings:
  "sumAmounts (filter (\<lambda>t. type t = Saved
       \<and> isWithinInterval (date t) \<lparr> start = startOfMonth m, end' = endOfMonth m \<rparr>)
     (allTransactions jars))
   = sum_list (map amount (filter (\<lambda>r. type r = Saved
       \<and> startOfMonth m \<le> date r \<and> date r \<le> endOfMonth m) (concat (map jarRecords jars))))"
  unfolding allTransactions_def sum_saved_sorted isWithinInterval_month
  using saved_all_tagged [of "\<lambda>d. startOfMonth m \<le> d \<and> d \<le> endOfMonth m" jars]
  by simp

text \<open>
  C4. The current month's total is the sum of the "saved" amounts dated from the start
  to the end of the month of \<open>now\<close>, both ends included, and last month's total the
  same for the month of \<open>subMonths(now, 1)\<close>. The velocity is
  \<open>(current - last) / last * 100\<close> when last month's total is positive; otherwise it
  is 100 when the current total is positive and 0 when both totals are 0.
\<close>

theorem velocity_formula:
  "(let cur = sum_list (map amount (filter (\<lambda>r. type r = Saved
                \<and> startOfMonth now \<le> date r \<and> date r \<le> endOfMonth now)
              (concat (map jarRecords jars))));
        last = sum_list (map amount (filter (\<lambda>r. type r = Saved
                \<and> startOfMonth (subMonths now 1) \<le> date r
                \<and> date r \<le> endOfMonth (subMonths now 1))
              (concat (map jarRecords jars))))
    in currentMonthSavings now jars = cur
     \<and> lastMonthSavings now jars = last
     \<and> (last > 0 \<longrightarrow> velocityPercent now jars = (cur - last) / last * 100)
     \<and> (\<not> last > 0 \<and> cur > 0 \<longrightarrow> velocityPercent now jars = 100)
     \<and> (last = 0 \<and> cur = 0 \<longrightarrow> velocityPercent now jars = 0))"
proof -
  have "currentMonthSavings now jars
      = sum_list (map amount (filter (\<lambda>r. type r = Saved
                \<and> startOfMonth now \<le> date r \<and> date r \<le> endOfMonth now)
              (concat (map jarRecords jars))))"
    unfolding currentMonthSavings_def currentMonth_def by (rule month_savings)
  moreover have "lastMonthSavings now jars
      = sum_list (map amount (filter (\<lambda>r. type r = Saved
                \<and> startOfMonth (subMonths now 1) \<le> date r
                \<and> date r \<le> endOfMonth (subMonths now 1))
              (concat (map jarRecords jars))))"
    unfolding lastMonthSavings_def lastMonth_def by (rule month_savings)
  ultimately show ?thesis
    by (simp add: velocityPercent_def Let_def)
qed

theorem velocity_formula_witness:
  "currentMonthSavings now0 [houseJar] = 25 \<and> lastMonthSavings now0 [houseJar] = 10
   \<and> velocityPercent now0 [houseJar] = 150
   \<and> currentMonthSavings now0 [carJar] = 15 \<and> lastMonthSavings now0 [carJar] = 0
   \<and> velocityPercent now0 [carJar] = 100
   \<and> velocityPercent now0 [] = 0"
proof -
  have h: "sum_list (map amount (filter (\<lambda>r. type r = Saved
                \<and> startOfMonth now0 \<le> date r \<and> date r \<le> endOfMonth now0)
              (concat (map jarRecords [houseJar])))) = 25"
    "sum_list (map amount (filter (\<lambda>r. type r = Saved
                \<and> startOfMonth (subMonths now0 1) \<le> date r
                \<and> date r \<le> endOfMonth (subMonths now0 1))
              (concat (map jarRecords [houseJar])))) = 10"
    by code_simp+
  have c: "sum_list (map amount (filter (\<lambda>r. type r = Saved
                \<and> startOfMonth now0 \<le> date r \<and> date r \<le> endOfMonth now0)
              (concat (map jarRecords [carJar])))) = 15"
    "sum_list (map amount (filter (\<lambda>r. type r = Saved
                \<and> startOfMonth (subMonths now0 1) \<le> date r
                \<and> date r \<le> endOfMonth (subMonths now0 1))
              (concat (map jarRecords [carJar])))) = 0"
    by code_simp+
  show ?thesis
    using velocity_formula [of now0 "[houseJar]"] velocity_formula [of now0 "[carJar]"]
      velocity_formula [of now0 "[]"]
    unfolding Let_def h c by simp
qed

subsection \<open>Goal predictions\<close>












subsection \<open>Worst day and longest streak\<close>

text \<open>
  C1. The claim says that the worst saving day is never a bucket with count 0 when all
  "saved" records have positive amounts and none falls on a Sunday. The reduction starts
  from the Sunday bucket and moves only to a bucket with a smaller amount, so with a
  single record of 10 on a Monday it stays on Sunday, whose count is 0.
\<close>

theorem worstSavingDay_empty_bucket:
  "map (\<lambda>r. (type r, getDay (date r), amount r)) (concat (map jarRecords [mondayJar]))
     = [(Saved, 1, 10)]
   \<and> dayOfWeekStats [mondayJar] ! 1 = \<lparr> day = ''Monday'', day_amount = 10, count = 1 \<rparr>
   \<and> worstSavingDay [mondayJar] = Some \<lparr> day = ''Sunday'', day_amount = 0, count = 0 \<rparr>"
  by code_simp

text \<open>
  C2. The claim says that the longest streak is never below the current streak. With one
  "saved" record, dated today, the current streak is 1 and the longest streak is 0: the
  second loop records a run only when it grows beyond one day.
\<close>

theorem longestStreak_below_current:
  "uniqueDates [todayJar] = [(2024, 3, 15)] \<and> format_ymd now0 = (2024, 3, 15)
   \<and> currentStreak now0 [todayJar] = 1 \<and> longestStreak [todayJar] = 0
   \<and> \<not> currentStreak now0 [todayJar] \<le> longestStreak [todayJar]"
  by code_simp

end
